theory Spec2Isabelle
  imports Main "HOL-Library.Word" "HOL-Library.Sublist"
begin

section \<open>The time rotating writer of logit-go\<close>

text \<open>
  The repository wraps a \<open>lumberjack.Logger\<close> (a log file that rotates by size, age and
  count) in a \<open>TimeRotatingWriter\<close> that also forces a rotation once a fixed interval
  has passed. The source holds the file twice: a first text (lines 1-38 of
  \<open>src/unnamed/part_000\<close>) and a second one (lines 39-113) whose \<open>Write\<close> guards the
  time check by \<open>rotationTime > 0\<close>, keeps writing when the rotation fails, and which
  adds \<open>Close\<close>. The struct and the constructor are the same in both. Both \<open>Write\<close>
  methods are embedded here, as \<open>Write1\<close> and \<open>Write2\<close>.
\<close>

subsection \<open>Values of the Go program\<close>

text \<open>
  A \<open>time.Time\<close> read from \<open>time.Now()\<close> is an instant of the process's monotonic
  clock, in nanoseconds. A \<open>time.Duration\<close> is an \<open>int64\<close> count of nanoseconds.
  \<open>t.Sub(u)\<close> is the difference \<open>t - u\<close>, saturated at the least and the greatest
  \<open>Duration\<close>, and \<open>time.Since(u)\<close> is \<open>time.Now().Sub(u)\<close>.
\<close>

type_synonym Time = int
type_synonym Duration = "64 word"
type_synonym byte = "8 word"

definition minDuration :: int where
  "minDuration = - (2 ^ 63)"

definition maxDuration :: int where
  "maxDuration = 2 ^ 63 - 1"

definition Sub :: "Time \<Rightarrow> Time \<Rightarrow> int" where
  "Sub t u = (let d = t - u in
     if maxDuration < d then maxDuration
     else if d < minDuration then minDuration
     else d)"

text \<open>
  A Go \<open>error\<close> is known to the writer only through its message: \<open>fmt.Errorf\<close> with
  the verb \<open>%v\<close> prints \<open>err.Error()\<close>. A Go string is a sequence of bytes, so the
  Cyrillic literals of the source are their UTF-8 bytes here. A nil error is \<open>None\<close>.
\<close>

datatype error = Err (Error: string)

definition msg_write_after_rotate :: string where
  \<comment> \<open>line 87, the text of the format up to the first verb\<close>
  "msg_write_after_rotate =
    [CHR 0xD0, CHR 0xBE, CHR 0xD1, CHR 0x88, CHR 0xD0, CHR 0xB8, CHR 0xD0, CHR 0xB1,
     CHR 0xD0, CHR 0xBA, CHR 0xD0, CHR 0xB0, CHR 0x20, CHR 0xD0, CHR 0xB7, CHR 0xD0,
     CHR 0xB0, CHR 0xD0, CHR 0xBF, CHR 0xD0, CHR 0xB8, CHR 0xD1, CHR 0x81, CHR 0xD0,
     CHR 0xB8, CHR 0x20, CHR 0xD0, CHR 0xBF, CHR 0xD0, CHR 0xBE, CHR 0xD1, CHR 0x81,
     CHR 0xD0, CHR 0xBB, CHR 0xD0, CHR 0xB5, CHR 0x20, CHR 0xD0, CHR 0xBE, CHR 0xD1,
     CHR 0x88, CHR 0xD0, CHR 0xB8, CHR 0xD0, CHR 0xB1, CHR 0xD0, CHR 0xBA, CHR 0xD0,
     CHR 0xB8, CHR 0x20, CHR 0xD1, CHR 0x80, CHR 0xD0, CHR 0xBE, CHR 0xD1, CHR 0x82,
     CHR 0xD0, CHR 0xB0, CHR 0xD1, CHR 0x86, CHR 0xD0, CHR 0xB8, CHR 0xD0, CHR 0xB8,
     CHR 0x3A, CHR 0x20]"

definition msg_rotate_paren :: string where
  \<comment> \<open>line 87, the text between the two verbs: a blank, an opening bracket, two words\<close>
  "msg_rotate_paren =
    [CHR 0x20, CHR 0x28, CHR 0xD0, CHR 0xBE, CHR 0xD1, CHR 0x88, CHR 0xD0, CHR 0xB8,
     CHR 0xD0, CHR 0xB1, CHR 0xD0, CHR 0xBA, CHR 0xD0, CHR 0xB0, CHR 0x20, CHR 0xD1,
     CHR 0x80, CHR 0xD0, CHR 0xBE, CHR 0xD1, CHR 0x82, CHR 0xD0, CHR 0xB0, CHR 0xD1,
     CHR 0x86, CHR 0xD0, CHR 0xB8, CHR 0xD0, CHR 0xB8, CHR 0x3A, CHR 0x20]"

definition msg_rotate :: string where
  \<comment> \<open>line 89, the text of the format before its verb\<close>
  "msg_rotate =
    [CHR 0xD0, CHR 0xBE, CHR 0xD1, CHR 0x88, CHR 0xD0, CHR 0xB8, CHR 0xD0, CHR 0xB1,
     CHR 0xD0, CHR 0xBA, CHR 0xD0, CHR 0xB0, CHR 0x20, CHR 0xD1, CHR 0x80, CHR 0xD0,
     CHR 0xBE, CHR 0xD1, CHR 0x82, CHR 0xD0, CHR 0xB0, CHR 0xD1, CHR 0x86, CHR 0xD0,
     CHR 0xB8, CHR 0xD0, CHR 0xB8, CHR 0x20, CHR 0xD0, CHR 0xBB, CHR 0xD0, CHR 0xBE,
     CHR 0xD0, CHR 0xB3, CHR 0x2D, CHR 0xD1, CHR 0x84, CHR 0xD0, CHR 0xB0, CHR 0xD0,
     CHR 0xB9, CHR 0xD0, CHR 0xBB, CHR 0xD0, CHR 0xB0, CHR 0x3A, CHR 0x20]"

definition Errorf_write_after_rotate :: "error \<Rightarrow> error \<Rightarrow> error" where
  \<comment> \<open>line 87: \<open>fmt.Errorf("... %v (...: %v)", writeErr, err)\<close>\<close>
  "Errorf_write_after_rotate writeErr err =
     Err (msg_write_after_rotate @ Error writeErr @ msg_rotate_paren @ Error err @ '')'')"

definition Errorf_rotate :: "error \<Rightarrow> error" where
  \<comment> \<open>line 89: \<open>fmt.Errorf("...: %v", err)\<close>\<close>
  "Errorf_rotate err = Err (msg_rotate @ Error err)"

subsection \<open>The world outside the writer\<close>

text \<open>
  The writer holds a pointer to its \<open>lumberjack.Logger\<close>; the loggers live in a store
  from addresses to their states. What a logger does on \<open>Rotate\<close>, \<open>Write\<close> and
  \<open>Close\<close> is not code of this repository: it is a parameter, three functions on a
  logger state of any type \<open>'s\<close>. The clock is a parameter too: the sequence of values
  that successive calls of \<open>time.Now()\<close> return. The world counts the readings taken
  and logs every call made to a logger, oldest first.
\<close>

type_synonym addr = nat

datatype call = RotateCall | WriteCall "byte list" | CloseCall

record 's env =
  clock :: "nat \<Rightarrow> Time"
  Logger_Rotate :: "'s \<Rightarrow> error option \<times> 's"
  Logger_Write :: "byte list \<Rightarrow> 's \<Rightarrow> (int \<times> error option) \<times> 's"
  Logger_Close :: "'s \<Rightarrow> error option \<times> 's"

record 's world =
  ticks :: nat
  store :: "addr \<Rightarrow> 's"
  calls :: "(addr \<times> call) list"

definition Now :: "'s env \<Rightarrow> 's world \<Rightarrow> Time \<times> 's world" where
  "Now env \<sigma> = (clock env (ticks \<sigma>), \<sigma>\<lparr>ticks := Suc (ticks \<sigma>)\<rparr>)"

definition Since :: "'s env \<Rightarrow> Time \<Rightarrow> 's world \<Rightarrow> int \<times> 's world" where
  "Since env u \<sigma> = (case Now env \<sigma> of (t, \<sigma>') \<Rightarrow> (Sub t u, \<sigma>'))"

definition call_Rotate :: "'s env \<Rightarrow> addr \<Rightarrow> 's world \<Rightarrow> error option \<times> 's world" where
  "call_Rotate env a \<sigma> = (case Logger_Rotate env (store \<sigma> a) of (e, s') \<Rightarrow>
     (e, \<sigma>\<lparr>store := (store \<sigma>)(a := s'), calls := calls \<sigma> @ [(a, RotateCall)]\<rparr>))"

definition call_Write ::
  "'s env \<Rightarrow> addr \<Rightarrow> byte list \<Rightarrow> 's world \<Rightarrow> (int \<times> error option) \<times> 's world" where
  "call_Write env a p \<sigma> = (case Logger_Write env p (store \<sigma> a) of (r, s') \<Rightarrow>
     (r, \<sigma>\<lparr>store := (store \<sigma>)(a := s'), calls := calls \<sigma> @ [(a, WriteCall p)]\<rparr>))"

definition call_Close :: "'s env \<Rightarrow> addr \<Rightarrow> 's world \<Rightarrow> error option \<times> 's world" where
  "call_Close env a \<sigma> = (case Logger_Close env (store \<sigma> a) of (e, s') \<Rightarrow>
     (e, \<sigma>\<lparr>store := (store \<sigma>)(a := s'), calls := calls \<sigma> @ [(a, CloseCall)]\<rparr>))"

subsection \<open>The writer\<close>

text \<open>
  The struct of lines 9-14 and 50-55. The mutex is a flag, set while it is held. In a
  run of one thread a \<open>Lock\<close> on a held mutex never returns, which is the value
  \<open>None\<close>; the deferred \<open>Unlock\<close> runs on every way out of the method.
\<close>

record TimeRotatingWriter =
  Logger :: addr
  rotationTime :: Duration
  lastRotation :: Time
  mu :: bool

definition Lock :: "TimeRotatingWriter \<Rightarrow> TimeRotatingWriter option" where
  "Lock w = (if mu w then None else Some (w\<lparr>mu := True\<rparr>))"

definition Unlock :: "TimeRotatingWriter \<Rightarrow> TimeRotatingWriter" where
  "Unlock w = w\<lparr>mu := False\<rparr>"

definition NewTimeRotatingWriter ::
  "'s env \<Rightarrow> addr \<Rightarrow> Duration \<Rightarrow> 's world \<Rightarrow> TimeRotatingWriter \<times> 's world" where
  \<comment> \<open>lines 17-23 and 61-67\<close>
  "NewTimeRotatingWriter env logger rotationTime' \<sigma> = (case Now env \<sigma> of (t, \<sigma>') \<Rightarrow>
     (\<lparr>Logger = logger, rotationTime = rotationTime', lastRotation = t, mu = False\<rparr>, \<sigma>'))"

type_synonym 's outcome = "(int \<times> error option) \<times> TimeRotatingWriter \<times> 's world"

definition Write1_locked ::
  "'s env \<Rightarrow> byte list \<Rightarrow> TimeRotatingWriter \<Rightarrow> 's world \<Rightarrow> 's outcome" where
  \<comment> \<open>lines 30-37\<close>
  "Write1_locked env p w \<sigma> = (case Since env (lastRotation w) \<sigma> of (d, \<sigma>1) \<Rightarrow>
     if sint (rotationTime w) \<le> d then
       (case call_Rotate env (Logger w) \<sigma>1 of
          (Some err, \<sigma>2) \<Rightarrow> ((0, Some err), w, \<sigma>2)
        | (None, \<sigma>2) \<Rightarrow> (case Now env \<sigma>2 of (t, \<sigma>3) \<Rightarrow>
            (case call_Write env (Logger w) p \<sigma>3 of (r, \<sigma>4) \<Rightarrow>
               (r, w\<lparr>lastRotation := t\<rparr>, \<sigma>4))))
     else (case call_Write env (Logger w) p \<sigma>1 of (r, \<sigma>2) \<Rightarrow> (r, w, \<sigma>2)))"

definition Write1 ::
  "'s env \<Rightarrow> byte list \<Rightarrow> TimeRotatingWriter \<times> 's world \<Rightarrow> 's outcome option" where
  \<comment> \<open>lines 26-38\<close>
  "Write1 env p = (\<lambda>(w, \<sigma>). case Lock w of
       None \<Rightarrow> None
     | Some w1 \<Rightarrow> (case Write1_locked env p w1 \<sigma> of (r, w2, \<sigma>') \<Rightarrow> Some (r, Unlock w2, \<sigma>')))"

definition rotation_due :: "'s env \<Rightarrow> TimeRotatingWriter \<Rightarrow> 's world \<Rightarrow> bool \<times> 's world" where
  \<comment> \<open>the condition of line 77; \<open>&&\<close> evaluates its right operand only when the left holds\<close>
  "rotation_due env w \<sigma> =
     (if 0 < sint (rotationTime w) then
        (case Since env (lastRotation w) \<sigma> of (d, \<sigma>') \<Rightarrow> (sint (rotationTime w) \<le> d, \<sigma>'))
      else (False, \<sigma>))"

definition Write2_locked ::
  "'s env \<Rightarrow> byte list \<Rightarrow> TimeRotatingWriter \<Rightarrow> 's world \<Rightarrow> 's outcome" where
  \<comment> \<open>lines 77-95\<close>
  "Write2_locked env p w \<sigma> = (case rotation_due env w \<sigma> of (due, \<sigma>1) \<Rightarrow>
     if due then
       (case call_Rotate env (Logger w) \<sigma>1 of
          (Some err, \<sigma>2) \<Rightarrow>
            (case call_Write env (Logger w) p \<sigma>2 of ((currentN, writeErr), \<sigma>3) \<Rightarrow>
               (case writeErr of
                  Some werr \<Rightarrow> ((0, Some (Errorf_write_after_rotate werr err)), w, \<sigma>3)
                | None \<Rightarrow> ((currentN, Some (Errorf_rotate err)), w, \<sigma>3)))
        | (None, \<sigma>2) \<Rightarrow> (case Now env \<sigma>2 of (t, \<sigma>3) \<Rightarrow>
            (case call_Write env (Logger w) p \<sigma>3 of (r, \<sigma>4) \<Rightarrow>
               (r, w\<lparr>lastRotation := t\<rparr>, \<sigma>4))))
     else (case call_Write env (Logger w) p \<sigma>1 of (r, \<sigma>2) \<Rightarrow> (r, w, \<sigma>2)))"

definition Write2 ::
  "'s env \<Rightarrow> byte list \<Rightarrow> TimeRotatingWriter \<times> 's world \<Rightarrow> 's outcome option" where
  \<comment> \<open>lines 71-96\<close>
  "Write2 env p = (\<lambda>(w, \<sigma>). case Lock w of
       None \<Rightarrow> None
     | Some w1 \<Rightarrow> (case Write2_locked env p w1 \<sigma> of (r, w2, \<sigma>') \<Rightarrow> Some (r, Unlock w2, \<sigma>')))"

definition Close ::
  "'s env \<Rightarrow> TimeRotatingWriter \<times> 's world \<Rightarrow>
   (error option \<times> TimeRotatingWriter \<times> 's world) option" where
  \<comment> \<open>lines 109-113\<close>
  "Close env = (\<lambda>(w, \<sigma>). case Lock w of
       None \<Rightarrow> None
     | Some w1 \<Rightarrow> (case call_Close env (Logger w1) \<sigma> of (e, \<sigma>') \<Rightarrow> Some (e, Unlock w1, \<sigma>')))"

text \<open>
  The life of a writer after its construction is a sequence of calls of \<open>Write\<close> and
  \<open>Close\<close> (of the second text, the one that has \<open>Close\<close>), each on the state the call
  before it left.
\<close>

datatype op = OpWrite "byte list" | OpClose

fun run :: "'s env \<Rightarrow> op list \<Rightarrow> TimeRotatingWriter \<times> 's world \<Rightarrow>
    (TimeRotatingWriter \<times> 's world) option" where
  "run env [] ws = Some ws"
| "run env (OpWrite p # ops) ws =
     (case Write2 env p ws of None \<Rightarrow> None | Some (r, ws') \<Rightarrow> run env ops ws')"
| "run env (OpClose # ops) ws =
     (case Close env ws of None \<Rightarrow> None | Some (e, ws') \<Rightarrow> run env ops ws')"

subsection \<open>A logger to run the writer on\<close>

text \<open>
  A stand-in for the log file, for evaluating the writer on concrete calls: its state is
  two flags, whether \<open>Rotate\<close> succeeds and whether \<open>Write\<close> and \<open>Close\<close> succeed. A
  successful write reports the length of its argument. The clock advances by 100
  nanoseconds from one reading to the next.
\<close>

definition demo_env :: "(bool \<times> bool) env" where
  "demo_env = \<lparr>
     clock = (\<lambda>k. 100 * int k),
     Logger_Rotate = (\<lambda>s. (if fst s then None else Some (Err ''rename failed''), s)),
     Logger_Write = (\<lambda>p s.
       (if snd s then (int (length p), None) else (0, Some (Err ''disk full'')), s)),
     Logger_Close = (\<lambda>s. (if snd s then None else Some (Err ''file already closed''), s))\<rparr>"

definition demo_world :: "nat \<Rightarrow> bool \<Rightarrow> bool \<Rightarrow> (bool \<times> bool) world" where
  "demo_world k rotate_ok write_ok =
     \<lparr>ticks = k, store = (\<lambda>a. (rotate_ok, write_ok)), calls = []\<rparr>"

definition demo_writer :: "Duration \<Rightarrow> Time \<Rightarrow> TimeRotatingWriter" where
  "demo_writer d t = \<lparr>Logger = 7, rotationTime = d, lastRotation = t, mu = False\<rparr>"

section \<open>Properties\<close>

subsection \<open>Auxiliary facts\<close>

lemma sint_Duration_bounds: "minDuration \<le> sint (x::Duration) \<and> sint x \<le> maxDuration"
  using sint_ge [of x] sint_lt [of x] by (simp add: minDuration_def maxDuration_def)

lemma Sub_ge_iff:
  "minDuration < r \<Longrightarrow> r \<le> maxDuration \<Longrightarrow> (r \<le> Sub t u) = (r \<le> t - u)"
  by (auto simp: Sub_def Let_def)

text \<open>For a positive interval the saturation of \<open>Sub\<close> does not change the comparison.\<close>

lemma due_iff: "0 < sint (x::Duration) \<Longrightarrow> (sint x \<le> Sub t u) = (sint x \<le> t - u)"
  using sint_Duration_bounds [of x] by (intro Sub_ge_iff) (auto simp: minDuration_def)

lemmas Write_defs = Write1_def Write1_locked_def Write2_def Write2_locked_def
  rotation_due_def Lock_def Unlock_def Since_def Now_def call_Rotate_def call_Write_def

lemmas demo_defs = demo_env_def demo_world_def demo_writer_def

lemma sublist_mid: "sublist xs (ps @ xs @ ss)"
  by (auto simp: sublist_def)

text \<open>A write that is due on a positive interval calls \<open>Rotate\<close> and then \<open>Write\<close>.\<close>

lemma Write2_due:
  assumes "\<not> mu w" and "0 < sint (rotationTime w)"
    and "sint (rotationTime w) \<le> clock env (ticks \<sigma>) - lastRotation w"
  shows "\<exists>r w' \<sigma>'. Write2 env p (w, \<sigma>) = Some (r, w', \<sigma>') \<and>
     calls \<sigma>' = calls \<sigma> @ [(Logger w, RotateCall), (Logger w, WriteCall p)]"
  using assms by (auto simp: Write_defs due_iff split: prod.splits option.splits)

lemma Close_writer_unchanged:
  assumes "Close env (w, \<sigma>) = Some (e, w', \<sigma>')"
  shows "w' = w \<and> ticks \<sigma>' = ticks \<sigma> \<and> calls \<sigma>' = calls \<sigma> @ [(Logger w, CloseCall)]"
  using assms
  by (auto simp: Close_def Lock_def Unlock_def call_Close_def split: prod.splits if_splits)

subsection \<open>Construction\<close>

text \<open>
  C8. For every logger and every interval, zero and negative ones too,
  \<open>NewTimeRotatingWriter\<close> returns a writer (it has no way to fail), and the
  \<open>lastRotation\<close> of that writer is the reading of the clock taken by the constructor.
  The writer keeps the logger and the interval it was given, and its mutex is free.
\<close>

theorem NewTimeRotatingWriter_lastRotation:
  "\<exists>w \<sigma>'. NewTimeRotatingWriter env logger d \<sigma> = (w, \<sigma>') \<and>
     lastRotation w = clock env (ticks \<sigma>) \<and> Logger w = logger \<and> rotationTime w = d \<and>
     \<not> mu w \<and> \<sigma>' = \<sigma>\<lparr>ticks := Suc (ticks \<sigma>)\<rparr>"
  by (simp add: NewTimeRotatingWriter_def Now_def)

subsection \<open>Close\<close>

text \<open>
  C7. \<open>Close\<close> returns exactly what the \<open>Close\<close> of the logger returns, an error or
  nil, unchanged; the logger is called once and the writer is left as it was.
\<close>

theorem Close_delegates:
  assumes "\<not> mu w"
  shows "\<exists>\<sigma>'. Close env (w, \<sigma>) = Some (fst (Logger_Close env (store \<sigma> (Logger w))), w, \<sigma>')
     \<and> calls \<sigma>' = calls \<sigma> @ [(Logger w, CloseCall)]"
  using assms by (simp add: Close_def Lock_def Unlock_def call_Close_def split: prod.splits)

theorem Close_delegates_witness:
  "\<not> mu (demo_writer 250 0) \<and>
   (\<exists>\<sigma>'. Close demo_env (demo_writer 250 0, demo_world 3 True False) =
       Some (Some (Err ''file already closed''), demo_writer 250 0, \<sigma>')
     \<and> calls \<sigma>' = [(7, CloseCall)])"
  using Close_delegates [of "demo_writer 250 0" demo_env "demo_world 3 True False"]
  by (simp add: demo_defs)

subsection \<open>The time check of Write\<close>

text \<open>
  C1. Let the interval be positive and let \<open>t\<close> be the time at which \<open>Write\<close> reads the
  clock. If \<open>t - lastRotation < interval\<close>, the only call made to the logger is the
  write. Otherwise \<open>Rotate\<close> is called exactly once and first: in the second text of
  the method the write always follows it; in the first text the write follows it when
  the rotation succeeded, and nothing follows it when the rotation failed.
\<close>

theorem Write_interval_gating:
  assumes "0 < sint (rotationTime w)" and "\<not> mu w"
  shows "(\<exists>r w' \<sigma>'. Write2 env p (w, \<sigma>) = Some (r, w', \<sigma>') \<and>
            calls \<sigma>' = calls \<sigma> @
              (if clock env (ticks \<sigma>) - lastRotation w < sint (rotationTime w)
               then [(Logger w, WriteCall p)]
               else [(Logger w, RotateCall), (Logger w, WriteCall p)]))
       \<and> (\<exists>r w' \<sigma>'. Write1 env p (w, \<sigma>) = Some (r, w', \<sigma>') \<and>
            calls \<sigma>' = calls \<sigma> @
              (if clock env (ticks \<sigma>) - lastRotation w < sint (rotationTime w)
               then [(Logger w, WriteCall p)]
               else (Logger w, RotateCall) #
                 (if fst (Logger_Rotate env (store \<sigma> (Logger w))) = None
                  then [(Logger w, WriteCall p)] else [])))"
  using assms by (auto simp: Write_defs due_iff split: prod.splits option.splits)

theorem Write_interval_gating_witness:
  "0 < sint (rotationTime (demo_writer 250 0)) \<and> \<not> mu (demo_writer 250 0) \<and>
   (\<exists>r w' \<sigma>'. Write2 demo_env [1, 2] (demo_writer 250 0, demo_world 3 True True)
         = Some (r, w', \<sigma>') \<and>
       calls \<sigma>' = [(7, RotateCall), (7, WriteCall [1, 2])]) \<and>
   (\<exists>r w' \<sigma>'. Write1 demo_env [1, 2] (demo_writer 250 0, demo_world 3 True True)
         = Some (r, w', \<sigma>') \<and>
       calls \<sigma>' = [(7, RotateCall), (7, WriteCall [1, 2])])"
  using Write_interval_gating [of "demo_writer 250 0" demo_env "[1, 2]" "demo_world 3 True True"]
  by (simp add: demo_defs)

subsection \<open>A rotation that fails\<close>

text \<open>
  C2. Let the interval be positive and the rotation due, let \<open>Rotate\<close> return an error
  and let the write on the logger as the failed rotation left it succeed with \<open>n\<close>
  bytes. The second text of \<open>Write\<close> makes that write and returns \<open>n\<close> with a non-nil
  error whose text contains the message of the rotation error; the writer is unchanged,
  \<open>lastRotation\<close> included, so that a next \<open>Write\<close> still past the interval calls
  \<open>Rotate\<close> again. The first text of \<open>Write\<close> does not make the write: it returns zero
  bytes and the rotation error itself after the one call of \<open>Rotate\<close>, and leaves the
  writer, \<open>lastRotation\<close> included, unchanged as well.
\<close>

theorem Write_rotation_failure_write_ok:
  assumes "\<not> mu w" and "0 < sint (rotationTime w)"
    and "sint (rotationTime w) \<le> clock env (ticks \<sigma>) - lastRotation w"
    and "Logger_Rotate env (store \<sigma> (Logger w)) = (Some rerr, s1)"
    and "Logger_Write env p s1 = ((n, None), s2)"
  shows "(\<exists>\<sigma>'. Write2 env p (w, \<sigma>) = Some ((n, Some (Errorf_rotate rerr)), w, \<sigma>') \<and>
            sublist (Error rerr) (Error (Errorf_rotate rerr)) \<and>
            calls \<sigma>' = calls \<sigma> @ [(Logger w, RotateCall), (Logger w, WriteCall p)] \<and>
            (\<forall>p'. sint (rotationTime w) \<le> clock env (ticks \<sigma>') - lastRotation w \<longrightarrow>
               (\<exists>r w'' \<sigma>''. Write2 env p' (w, \<sigma>') = Some (r, w'', \<sigma>'') \<and>
                  calls \<sigma>'' = calls \<sigma>' @ [(Logger w, RotateCall), (Logger w, WriteCall p')])))
       \<and> (\<exists>\<sigma>'. Write1 env p (w, \<sigma>) = Some ((0, Some rerr), w, \<sigma>') \<and>
            calls \<sigma>' = calls \<sigma> @ [(Logger w, RotateCall)])"
proof (intro conjI)
  have "Write2 env p (w, \<sigma>) = Some ((n, Some (Errorf_rotate rerr)), w,
      \<sigma>\<lparr>ticks := Suc (ticks \<sigma>), store := (store \<sigma>)(Logger w := s2),
        calls := calls \<sigma> @ [(Logger w, RotateCall), (Logger w, WriteCall p)]\<rparr>)"
    (is "_ = Some (_, _, ?\<sigma>')")
    using assms by (simp add: Write_defs due_iff)
  moreover have "sublist (Error rerr) (Error (Errorf_rotate rerr))"
    using sublist_mid [of "Error rerr" msg_rotate "[]"] by (simp add: Errorf_rotate_def)
  moreover have "\<forall>p'. sint (rotationTime w) \<le> clock env (ticks ?\<sigma>') - lastRotation w \<longrightarrow>
       (\<exists>r w'' \<sigma>''. Write2 env p' (w, ?\<sigma>') = Some (r, w'', \<sigma>'') \<and>
          calls \<sigma>'' = calls ?\<sigma>' @ [(Logger w, RotateCall), (Logger w, WriteCall p')])"
    using Write2_due [OF assms(1,2)] by blast
  ultimately show "\<exists>\<sigma>'. Write2 env p (w, \<sigma>) = Some ((n, Some (Errorf_rotate rerr)), w, \<sigma>') \<and>
            sublist (Error rerr) (Error (Errorf_rotate rerr)) \<and>
            calls \<sigma>' = calls \<sigma> @ [(Logger w, RotateCall), (Logger w, WriteCall p)] \<and>
            (\<forall>p'. sint (rotationTime w) \<le> clock env (ticks \<sigma>') - lastRotation w \<longrightarrow>
               (\<exists>r w'' \<sigma>''. Write2 env p' (w, \<sigma>') = Some (r, w'', \<sigma>'') \<and>
                  calls \<sigma>'' = calls \<sigma>' @ [(Logger w, RotateCall), (Logger w, WriteCall p')]))"
    by (intro exI [of _ ?\<sigma>']) simp
next
  show "\<exists>\<sigma>'. Write1 env p (w, \<sigma>) = Some ((0, Some rerr), w, \<sigma>') \<and>
            calls \<sigma>' = calls \<sigma> @ [(Logger w, RotateCall)]"
    using assms by (simp add: Write_defs due_iff)
qed

theorem Write_rotation_failure_write_ok_witness:
  "\<not> mu (demo_writer 250 0) \<and> 0 < sint (rotationTime (demo_writer 250 0)) \<and>
   sint (rotationTime (demo_writer 250 0))
     \<le> clock demo_env (ticks (demo_world 3 False True)) - lastRotation (demo_writer 250 0) \<and>
   Logger_Rotate demo_env (store (demo_world 3 False True) (Logger (demo_writer 250 0)))
     = (Some (Err ''rename failed''), (False, True)) \<and>
   Logger_Write demo_env [1, 2] (False, True) = ((2, None), (False, True)) \<and>
   (\<exists>\<sigma>'. Write2 demo_env [1, 2] (demo_writer 250 0, demo_world 3 False True)
       = Some ((2, Some (Errorf_rotate (Err ''rename failed''))), demo_writer 250 0, \<sigma>')) \<and>
   (\<exists>\<sigma>'. Write1 demo_env [1, 2] (demo_writer 250 0, demo_world 3 False True)
       = Some ((0, Some (Err ''rename failed'')), demo_writer 250 0, \<sigma>'))"
proof -
  have h: "\<not> mu (demo_writer 250 0)" "0 < sint (rotationTime (demo_writer 250 0))"
    "sint (rotationTime (demo_writer 250 0))
       \<le> clock demo_env (ticks (demo_world 3 False True)) - lastRotation (demo_writer 250 0)"
    "Logger_Rotate demo_env (store (demo_world 3 False True) (Logger (demo_writer 250 0)))
       = (Some (Err ''rename failed''), (False, True))"
    "Logger_Write demo_env [1, 2] (False, True) = ((2, None), (False, True))"
    by (simp_all add: demo_defs)
  from Write_rotation_failure_write_ok [OF h] h show ?thesis by blast
qed

text \<open>
  The first text at a concrete call: the interval is 250, 300 have passed, \<open>Rotate\<close>
  fails, and a write of the two bytes would succeed and report 2. The call returns zero
  bytes, and the logger has seen \<open>Rotate\<close> and nothing else.
\<close>

theorem Write1_rotation_failure_drops_write:
  "Logger_Rotate demo_env (store (demo_world 3 False True) (Logger (demo_writer 250 0)))
     = (Some (Err ''rename failed''), (False, True)) \<and>
   Logger_Write demo_env [1, 2] (False, True) = ((2, None), (False, True)) \<and>
   map_option fst (Write1 demo_env [1, 2] (demo_writer 250 0, demo_world 3 False True))
     = Some (0, Some (Err ''rename failed'')) \<and>
   map_option (calls \<circ> snd \<circ> snd)
       (Write1 demo_env [1, 2] (demo_writer 250 0, demo_world 3 False True))
     = Some [(7, RotateCall)]"
  by (simp add: Write_defs demo_defs Sub_def maxDuration_def minDuration_def)

text \<open>
  C3. Let the interval be positive and the rotation due, and let both \<open>Rotate\<close> and the
  write that follows it return an error. Then \<open>Write\<close> returns zero bytes and one error,
  the one built on line 87, whose text contains the message of the rotation error and
  the message of the write error.
\<close>

theorem Write_double_fault:
  assumes "\<not> mu w" and "0 < sint (rotationTime w)"
    and "sint (rotationTime w) \<le> clock env (ticks \<sigma>) - lastRotation w"
    and "Logger_Rotate env (store \<sigma> (Logger w)) = (Some rerr, s1)"
    and "Logger_Write env p s1 = ((n, Some werr), s2)"
  shows "\<exists>e \<sigma>'. Write2 env p (w, \<sigma>) = Some ((0, Some e), w, \<sigma>') \<and>
     e = Errorf_write_after_rotate werr rerr \<and>
     sublist (Error rerr) (Error e) \<and> sublist (Error werr) (Error e) \<and>
     calls \<sigma>' = calls \<sigma> @ [(Logger w, RotateCall), (Logger w, WriteCall p)]"
proof -
  let ?e = "Errorf_write_after_rotate werr rerr"
  have "sublist (Error rerr) (Error ?e)"
    using sublist_mid [of "Error rerr"
        "msg_write_after_rotate @ Error werr @ msg_rotate_paren" "'')''"]
    by (simp add: Errorf_write_after_rotate_def)
  moreover have "sublist (Error werr) (Error ?e)"
    using sublist_mid [of "Error werr" msg_write_after_rotate
        "msg_rotate_paren @ Error rerr @ '')''"]
    by (simp add: Errorf_write_after_rotate_def)
  moreover have "\<exists>\<sigma>'. Write2 env p (w, \<sigma>) = Some ((0, Some ?e), w, \<sigma>') \<and>
     calls \<sigma>' = calls \<sigma> @ [(Logger w, RotateCall), (Logger w, WriteCall p)]"
    using assms by (simp add: Write_defs due_iff)
  ultimately show ?thesis by blast
qed

theorem Write_double_fault_witness:
  "\<not> mu (demo_writer 250 0) \<and> 0 < sint (rotationTime (demo_writer 250 0)) \<and>
   sint (rotationTime (demo_writer 250 0))
     \<le> clock demo_env (ticks (demo_world 3 False False)) - lastRotation (demo_writer 250 0) \<and>
   Logger_Rotate demo_env (store (demo_world 3 False False) (Logger (demo_writer 250 0)))
     = (Some (Err ''rename failed''), (False, False)) \<and>
   Logger_Write demo_env [1, 2] (False, False)
     = ((0, Some (Err ''disk full'')), (False, False)) \<and>
   (\<exists>e \<sigma>'. Write2 demo_env [1, 2] (demo_writer 250 0, demo_world 3 False False)
       = Some ((0, Some e), demo_writer 250 0, \<sigma>') \<and>
      sublist ''rename failed'' (Error e) \<and> sublist ''disk full'' (Error e))"
proof -
  have h: "\<not> mu (demo_writer 250 0)" "0 < sint (rotationTime (demo_writer 250 0))"
    "sint (rotationTime (demo_writer 250 0))
       \<le> clock demo_env (ticks (demo_world 3 False False)) - lastRotation (demo_writer 250 0)"
    "Logger_Rotate demo_env (store (demo_world 3 False False) (Logger (demo_writer 250 0)))
       = (Some (Err ''rename failed''), (False, False))"
    "Logger_Write demo_env [1, 2] (False, False)
       = ((0, Some (Err ''disk full'')), (False, False))"
    by (simp_all add: demo_defs)
  from Write_double_fault [OF h] h show ?thesis by fastforce
qed

subsection \<open>An interval that is not positive\<close>

text \<open>
  The second text of \<open>Write\<close> tests \<open>rotationTime > 0\<close> first. With an interval of
  zero or less it does not read the clock, makes the write its only call to the logger
  and leaves the writer as it was; what \<open>lastRotation\<close> holds has no influence on it.
\<close>

lemma Write2_disabled_step:
  assumes "sint (rotationTime w) \<le> 0" and "Write2 env p (w, \<sigma>) = Some (r, w', \<sigma>')"
  shows "w' = w \<and> ticks \<sigma>' = ticks \<sigma> \<and> calls \<sigma>' = calls \<sigma> @ [(Logger w, WriteCall p)]"
  using assms by (auto simp: Write_defs split: prod.splits option.splits if_splits)

lemma Write2_disabled_ignores_lastRotation:
  assumes "sint (rotationTime w) \<le> 0"
  shows "Write2 env p (w\<lparr>lastRotation := t\<rparr>, \<sigma>) =
     map_option (\<lambda>(r, w', \<sigma>'). (r, w'\<lparr>lastRotation := t\<rparr>, \<sigma>')) (Write2 env p (w, \<sigma>))"
  using assms by (auto simp: Write_defs split: prod.splits option.splits if_splits)

text \<open>The same over any sequence of calls: no call of \<open>Rotate\<close> is ever added.\<close>

lemma run_disabled_never_rotates:
  "sint (rotationTime w) \<le> 0 \<Longrightarrow> run env ops (w, \<sigma>) = Some (w', \<sigma>') \<Longrightarrow>
     w' = w \<and> ticks \<sigma>' = ticks \<sigma> \<and>
     (\<exists>cs. calls \<sigma>' = calls \<sigma> @ cs \<and> (\<forall>c \<in> set cs. snd c \<noteq> RotateCall))"
proof (induction ops arbitrary: \<sigma>)
  case Nil
  then show ?case by simp
next
  case (Cons x ops)
  show ?case
  proof (cases x)
    case (OpWrite p)
    with Cons.prems(2) obtain r w1 \<sigma>1 where W: "Write2 env p (w, \<sigma>) = Some (r, w1, \<sigma>1)"
      and R: "run env ops (w1, \<sigma>1) = Some (w', \<sigma>')"
      by (auto split: option.splits)
    from Write2_disabled_step [OF Cons.prems(1) W]
    have s: "w1 = w" "ticks \<sigma>1 = ticks \<sigma>" "calls \<sigma>1 = calls \<sigma> @ [(Logger w, WriteCall p)]"
      by simp_all
    from Cons.IH [OF Cons.prems(1) R [unfolded s(1)]] s show ?thesis by auto
  next
    case OpClose
    with Cons.prems(2) obtain e w1 \<sigma>1 where C: "Close env (w, \<sigma>) = Some (e, w1, \<sigma>1)"
      and R: "run env ops (w1, \<sigma>1) = Some (w', \<sigma>')"
      by (auto split: option.splits)
    from Close_writer_unchanged [OF C]
    have s: "w1 = w" "ticks \<sigma>1 = ticks \<sigma>" "calls \<sigma>1 = calls \<sigma> @ [(Logger w, CloseCall)]"
      by simp_all
    from Cons.IH [OF Cons.prems(1) R [unfolded s(1)]] s show ?thesis by auto
  qed
qed

text \<open>
  C4. A writer whose interval is zero or less never calls \<open>Rotate\<close> and never looks at
  \<open>lastRotation\<close>. The second text of \<open>Write\<close> does so, as shown above. The first text
  (line 30) compares the elapsed time with the interval without testing the interval: with
  the interval 0, \<open>lastRotation\<close> 0 and the clock at 300 it calls \<open>Rotate\<close> before it
  writes.
\<close>

theorem Write1_rotates_when_disabled:
  "sint (rotationTime (demo_writer 0 0)) \<le> 0 \<and>
   (\<exists>r w' \<sigma>'. Write1 demo_env [1, 2] (demo_writer 0 0, demo_world 3 True True)
        = Some (r, w', \<sigma>') \<and>
      r = (2, None) \<and> lastRotation w' = 400 \<and>
      calls \<sigma>' = [(7, RotateCall), (7, WriteCall [1, 2])])"
  by (simp add: Write_defs demo_defs Sub_def maxDuration_def minDuration_def)

subsection \<open>The time of the last rotation\<close>

text \<open>
  The clock of \<open>time.Now()\<close> and \<open>time.Since\<close> is monotonic: a later reading is never
  less than an earlier one. "Never in the future" is: not above the value the clock
  would return if it were read now.
\<close>

lemma Write2_lastRotation_step:
  assumes m: "mono (clock env)"
    and inv: "lastRotation w \<le> clock env (ticks \<sigma>)"
    and W: "Write2 env p (w, \<sigma>) = Some (r, w', \<sigma>')"
  shows "lastRotation w \<le> lastRotation w' \<and> lastRotation w' \<le> clock env (ticks \<sigma>')"
proof -
  have 1: "clock env (ticks \<sigma>) \<le> clock env (Suc (ticks \<sigma>))"
    and 2: "clock env (Suc (ticks \<sigma>)) \<le> clock env (Suc (Suc (ticks \<sigma>)))"
    using m by (simp_all add: monoD)
  show ?thesis
    using W inv 1 2
    by (auto simp: Write_defs due_iff split: prod.splits option.splits if_splits)
qed

text \<open>
  A rotation that succeeds stores the reading taken right after it, which is above the
  old value, since the interval is positive and had passed.
\<close>

lemma Write2_rotation_advances:
  assumes "mono (clock env)" and "\<not> mu w" and "0 < sint (rotationTime w)"
    and "sint (rotationTime w) \<le> clock env (ticks \<sigma>) - lastRotation w"
    and "fst (Logger_Rotate env (store \<sigma> (Logger w))) = None"
  shows "\<exists>r w' \<sigma>'. Write2 env p (w, \<sigma>) = Some (r, w', \<sigma>') \<and>
     lastRotation w' = clock env (Suc (ticks \<sigma>)) \<and> lastRotation w < lastRotation w' \<and>
     lastRotation w' \<le> clock env (ticks \<sigma>')"
proof -
  have 1: "clock env (ticks \<sigma>) \<le> clock env (Suc (ticks \<sigma>))"
    and 2: "clock env (Suc (ticks \<sigma>)) \<le> clock env (Suc (Suc (ticks \<sigma>)))"
    using assms(1) by (simp_all add: monoD)
  show ?thesis
    using assms(2-) 1 2
    by (auto simp: Write_defs due_iff split: prod.splits option.splits)
qed

lemma run_lastRotation:
  assumes "mono (clock env)"
  shows "lastRotation w \<le> clock env (ticks \<sigma>) \<Longrightarrow> run env ops (w, \<sigma>) = Some (w', \<sigma>') \<Longrightarrow>
     lastRotation w \<le> lastRotation w' \<and> lastRotation w' \<le> clock env (ticks \<sigma>')"
proof (induction ops arbitrary: w \<sigma>)
  case Nil
  then show ?case by simp
next
  case (Cons x ops)
  show ?case
  proof (cases x)
    case (OpWrite p)
    with Cons.prems(2) obtain r w1 \<sigma>1 where W: "Write2 env p (w, \<sigma>) = Some (r, w1, \<sigma>1)"
      and R: "run env ops (w1, \<sigma>1) = Some (w', \<sigma>')"
      by (auto split: option.splits)
    from Write2_lastRotation_step [OF assms Cons.prems(1) W]
    have s: "lastRotation w \<le> lastRotation w1" "lastRotation w1 \<le> clock env (ticks \<sigma>1)"
      by simp_all
    from Cons.IH [OF s(2) R] s(1) show ?thesis by simp
  next
    case OpClose
    with Cons.prems(2) obtain e w1 \<sigma>1 where C: "Close env (w, \<sigma>) = Some (e, w1, \<sigma>1)"
      and R: "run env ops (w1, \<sigma>1) = Some (w', \<sigma>')"
      by (auto split: option.splits)
    from Close_writer_unchanged [OF C] Cons.prems(1)
    have s: "lastRotation w1 \<le> clock env (ticks \<sigma>1)" and e: "w1 = w" by simp_all
    from Cons.IH [OF s R] e show ?thesis by simp
  qed
qed

text \<open>
  C5. With a monotonic clock, along the life of a writer (its construction, then any
  calls of \<open>Write\<close> and \<open>Close\<close>, then any further calls) \<open>lastRotation\<close> never
  decreases, and after the construction and after every call it is not above the
  current time. In particular a rotation that succeeds sets it to a value that is not
  below the old one and not above the current time.
\<close>

theorem lastRotation_monotone_never_future:
  assumes "mono (clock env)"
    and "NewTimeRotatingWriter env logger d \<sigma>0 = (w0, \<sigma>1)"
    and "run env ops1 (w0, \<sigma>1) = Some (w1, \<sigma>2)"
    and "run env ops2 (w1, \<sigma>2) = Some (w2, \<sigma>3)"
  shows "lastRotation w0 \<le> lastRotation w1 \<and> lastRotation w1 \<le> lastRotation w2 \<and>
         lastRotation w0 \<le> clock env (ticks \<sigma>1) \<and>
         lastRotation w1 \<le> clock env (ticks \<sigma>2) \<and> lastRotation w2 \<le> clock env (ticks \<sigma>3)"
proof -
  have "clock env (ticks \<sigma>0) \<le> clock env (Suc (ticks \<sigma>0))"
    using assms(1) by (simp add: monoD)
  then have 0: "lastRotation w0 \<le> clock env (ticks \<sigma>1)"
    using assms(2) by (auto simp: NewTimeRotatingWriter_def Now_def)
  from run_lastRotation [OF assms(1) 0 assms(3)]
  have 1: "lastRotation w0 \<le> lastRotation w1" "lastRotation w1 \<le> clock env (ticks \<sigma>2)"
    by simp_all
  from run_lastRotation [OF assms(1) 1(2) assms(4)] 0 1 show ?thesis by simp
qed

theorem lastRotation_monotone_never_future_witness:
  "mono (clock demo_env) \<and>
   (\<exists>w0 \<sigma>1 w1 \<sigma>2 w2 \<sigma>3.
      NewTimeRotatingWriter demo_env 7 150 (demo_world 0 True True) = (w0, \<sigma>1) \<and>
      run demo_env [OpWrite [1]] (w0, \<sigma>1) = Some (w1, \<sigma>2) \<and>
      run demo_env [OpWrite [2], OpClose] (w1, \<sigma>2) = Some (w2, \<sigma>3) \<and>
      lastRotation w0 = 0 \<and> lastRotation w1 = 0 \<and> lastRotation w2 = 300 \<and>
      lastRotation w1 \<le> lastRotation w2 \<and> lastRotation w2 \<le> clock demo_env (ticks \<sigma>3))"
proof -
  let ?n = "NewTimeRotatingWriter demo_env 7 150 (demo_world 0 True True)"
  let ?r1 = "the (run demo_env [OpWrite [1]] ?n)"
  let ?r2 = "the (run demo_env [OpWrite [2], OpClose] ?r1)"
  have m: "mono (clock demo_env)"
    by (simp add: demo_env_def mono_def)
  have n: "?n = (fst ?n, snd ?n)"
    by simp
  have nv: "?n = (demo_writer 150 0, demo_world 1 True True)"
    by (simp add: NewTimeRotatingWriter_def Now_def demo_defs)
  have r1: "run demo_env [OpWrite [1]] ?n = Some ?r1" and l1: "lastRotation (fst ?r1) = 0"
    unfolding nv
    by (simp_all add: Write_defs demo_defs Sub_def maxDuration_def minDuration_def)
  have r2: "run demo_env [OpWrite [2], OpClose] ?r1 = Some ?r2"
    and l2: "lastRotation (fst ?r2) = 300"
    unfolding nv
    by (simp_all add: Write_defs Close_def call_Close_def demo_defs Sub_def
        maxDuration_def minDuration_def)
  have l0: "lastRotation (fst ?n) = 0"
    unfolding nv by (simp add: demo_defs)
  from lastRotation_monotone_never_future [of demo_env 7 150 "demo_world 0 True True"
      "fst ?n" "snd ?n" "[OpWrite [1]]" "fst ?r1" "snd ?r1" "[OpWrite [2], OpClose]"
      "fst ?r2" "snd ?r2"] m n r1 r2
  have "lastRotation (fst ?r1) \<le> lastRotation (fst ?r2) \<and>
        lastRotation (fst ?r2) \<le> clock demo_env (ticks (snd ?r2))"
    by simp
  with m n r1 r2 l0 l1 l2 show ?thesis
    by (metis prod.collapse)
qed

subsection \<open>The two texts of Write\<close>

text \<open>
  C9. The two texts of \<open>Write\<close> do not agree on every input: with a positive interval
  that has passed and a \<open>Rotate\<close> that fails, the first returns at once with zero bytes
  and the rotation error, and the second writes and returns the count of the write
  with a new error. For every positive interval they agree, in the result, in the
  writer and the world they leave and so in the calls made to the logger, exactly when
  the rotation is not due or \<open>Rotate\<close> succeeds.
\<close>

theorem Write1_Write2_agree_iff:
  assumes "0 < sint (rotationTime w)" and "\<not> mu w"
  shows "(Write1 env p (w, \<sigma>) = Write2 env p (w, \<sigma>)) =
     (clock env (ticks \<sigma>) - lastRotation w < sint (rotationTime w) \<or>
      fst (Logger_Rotate env (store \<sigma> (Logger w))) = None)"
proof (cases "clock env (ticks \<sigma>) - lastRotation w < sint (rotationTime w) \<or>
      fst (Logger_Rotate env (store \<sigma> (Logger w))) = None")
  case True
  then have "Write1 env p (w, \<sigma>) = Write2 env p (w, \<sigma>)"
    using assms(1) by (auto simp: Write_defs due_iff split: prod.splits option.splits)
  with True show ?thesis by simp
next
  case False
  then have due: "sint (rotationTime w) \<le> clock env (ticks \<sigma>) - lastRotation w"
    and "fst (Logger_Rotate env (store \<sigma> (Logger w))) \<noteq> None"
    by auto
  then obtain rerr s1 where rot: "Logger_Rotate env (store \<sigma> (Logger w)) = (Some rerr, s1)"
    by (cases "Logger_Rotate env (store \<sigma> (Logger w))") auto
  obtain r1 w1 \<sigma>1 where W1: "Write1 env p (w, \<sigma>) = Some (r1, w1, \<sigma>1)"
    and c1: "calls \<sigma>1 = calls \<sigma> @ [(Logger w, RotateCall)]"
    using assms due rot by (simp add: Write_defs due_iff)
  obtain r2 w2 \<sigma>2 where W2: "Write2 env p (w, \<sigma>) = Some (r2, w2, \<sigma>2)"
    and c2: "calls \<sigma>2 = calls \<sigma> @ [(Logger w, RotateCall), (Logger w, WriteCall p)]"
    using Write2_due [OF assms(2,1) due] by blast
  from c1 c2 have "\<sigma>1 \<noteq> \<sigma>2" by auto
  with W1 W2 have "Write1 env p (w, \<sigma>) \<noteq> Write2 env p (w, \<sigma>)" by simp
  with False show ?thesis by simp
qed

theorem Write1_Write2_agree_iff_witness:
  "0 < sint (rotationTime (demo_writer 250 0)) \<and> \<not> mu (demo_writer 250 0) \<and>
   fst (Logger_Rotate demo_env
     (store (demo_world 3 True False) (Logger (demo_writer 250 0)))) = None \<and>
   Write1 demo_env [1, 2] (demo_writer 250 0, demo_world 3 True False) =
   Write2 demo_env [1, 2] (demo_writer 250 0, demo_world 3 True False)"
  using Write1_Write2_agree_iff [of "demo_writer 250 0" demo_env "[1, 2]"
      "demo_world 3 True False"]
  by (simp add: demo_defs)

theorem Write1_Write2_differ:
  "Write1 demo_env [1, 2] (demo_writer 250 0, demo_world 3 False True) \<noteq>
   Write2 demo_env [1, 2] (demo_writer 250 0, demo_world 3 False True)"
  by (simp add: Write_defs demo_defs Sub_def maxDuration_def minDuration_def)

subsection \<open>What Write leaves untouched\<close>

text \<open>
  C10. On every return of \<open>Write\<close>, in both texts, the writer has the same interval, the
  same pointer to its logger and the same free mutex as at the call. If \<open>lastRotation\<close>
  has changed, then \<open>Rotate\<close> was called, on the logger as it was at the call, and
  returned no error.
\<close>

theorem Write_frame:
  assumes "Write2 env p (w, \<sigma>) = Some (r, w', \<sigma>') \<or> Write1 env p (w, \<sigma>) = Some (r, w', \<sigma>')"
  shows "rotationTime w' = rotationTime w \<and> Logger w' = Logger w \<and> mu w' = mu w \<and>
     (lastRotation w' \<noteq> lastRotation w \<longrightarrow>
        fst (Logger_Rotate env (store \<sigma> (Logger w))) = None \<and>
        calls \<sigma>' = calls \<sigma> @ [(Logger w, RotateCall), (Logger w, WriteCall p)])"
  using assms by (auto simp: Write_defs split: prod.splits option.splits if_splits)

theorem Write_frame_witness:
  "\<exists>r w' \<sigma>'.
     (Write2 demo_env [1, 2] (demo_writer 250 0, demo_world 3 True True) = Some (r, w', \<sigma>') \<or>
      Write1 demo_env [1, 2] (demo_writer 250 0, demo_world 3 True True) = Some (r, w', \<sigma>')) \<and>
     rotationTime w' = 250 \<and> Logger w' = 7 \<and> \<not> mu w' \<and> lastRotation w' \<noteq> 0 \<and>
     fst (Logger_Rotate demo_env (store (demo_world 3 True True) 7)) = None \<and>
     calls \<sigma>' = [(7, RotateCall), (7, WriteCall [1, 2])]"
proof -
  obtain r w' \<sigma>' where
    W: "Write2 demo_env [1, 2] (demo_writer 250 0, demo_world 3 True True) = Some (r, w', \<sigma>')"
    and l: "lastRotation w' = 400"
    by (simp add: Write_defs demo_defs Sub_def maxDuration_def minDuration_def)
  have f: "rotationTime (demo_writer 250 0) = 250" "Logger (demo_writer 250 0) = 7"
    "\<not> mu (demo_writer 250 0)" "lastRotation (demo_writer 250 0) = 0"
    "calls (demo_world 3 True True) = []"
    by (simp_all add: demo_defs)
  from Write_frame [OF disjI1 [OF W]] l f
  have "rotationTime w' = 250 \<and> Logger w' = 7 \<and> \<not> mu w' \<and> lastRotation w' \<noteq> 0 \<and>
     fst (Logger_Rotate demo_env (store (demo_world 3 True True) 7)) = None \<and>
     calls \<sigma>' = [(7, RotateCall), (7, WriteCall [1, 2])]"
    by simp
  with W show ?thesis by blast
qed

end
